theory Spec2Isabelle
  imports Complex_Main
begin

section \<open>JavaScript numbers\<close>

text \<open>
  The sample-size calculator computes on JavaScript numbers. A number is modelled as
  an exact real extended by the three special values of IEEE-754 arithmetic that steer
  the control flow of the calculator: \<open>NaN\<close>, \<open>+Infinity\<close> and \<open>-Infinity\<close>.
  Finite arithmetic is exact: rounding error, overflow and underflow are not modelled,
  and the two zeros are one value \<open>Fin 0\<close>. The sign of a zero can only be seen in the
  sign of a quotient by that zero; a quotient by \<open>Fin 0\<close> takes the sign of its
  numerator, which is what JavaScript computes for the divisor \<open>+0\<close>. The divisors of
  \<open>sampleSizeEstimate\<close> and \<open>roundToSigFigs\<close> are an absolute value, its square, a
  power of ten and \<open>Math.LN10\<close>, none of which is \<open>-0\<close>. In \<open>calculateSampleSize\<close> a
  negative number of variants makes the divisor of \<open>daysToRun\<close> the zero \<open>-0\<close>, and the
  quotient of JavaScript is the infinity of the opposite sign; what is proved of that
  quotient is that it is not finite.

  What is proved in this model is of two kinds: the value of a call at a concrete
  input, and statements about \<open>NaN\<close> and the infinities. A statement that rests on the
  rounding of a finite product or quotient (the order of two rounded results, the
  rounding of a result of the magnitude of \<open>2 ^ 53\<close> or more) is not made here.
\<close>

datatype jsnum = NaN | PInf | NInf | Fin real

fun jneg :: "jsnum \<Rightarrow> jsnum" where
  "jneg NaN = NaN"
| "jneg PInf = NInf"
| "jneg NInf = PInf"
| "jneg (Fin x) = Fin (- x)"

text \<open>\<open>a + b\<close>\<close>

fun jadd :: "jsnum \<Rightarrow> jsnum \<Rightarrow> jsnum" where
  "jadd NaN b = NaN"
| "jadd a NaN = NaN"
| "jadd PInf NInf = NaN"
| "jadd NInf PInf = NaN"
| "jadd PInf b = PInf"
| "jadd a PInf = PInf"
| "jadd NInf b = NInf"
| "jadd a NInf = NInf"
| "jadd (Fin x) (Fin y) = Fin (x + y)"

text \<open>\<open>a - b\<close>\<close>

definition jsub :: "jsnum \<Rightarrow> jsnum \<Rightarrow> jsnum" where
  "jsub a b = jadd a (jneg b)"

text \<open>\<open>a * b\<close>: an infinity times zero is \<open>NaN\<close>.\<close>

fun jmul :: "jsnum \<Rightarrow> jsnum \<Rightarrow> jsnum" where
  "jmul NaN b = NaN"
| "jmul a NaN = NaN"
| "jmul PInf PInf = PInf"
| "jmul PInf NInf = NInf"
| "jmul NInf PInf = NInf"
| "jmul NInf NInf = PInf"
| "jmul PInf (Fin y) = (if y = 0 then NaN else if 0 < y then PInf else NInf)"
| "jmul NInf (Fin y) = (if y = 0 then NaN else if 0 < y then NInf else PInf)"
| "jmul (Fin x) PInf = (if x = 0 then NaN else if 0 < x then PInf else NInf)"
| "jmul (Fin x) NInf = (if x = 0 then NaN else if 0 < x then NInf else PInf)"
| "jmul (Fin x) (Fin y) = Fin (x * y)"

text \<open>
  \<open>a / b\<close>: no division raises. Zero by zero and infinity by infinity are \<open>NaN\<close>, a
  nonzero number by zero is an infinity, a finite number by an infinity is zero.
\<close>

fun jdiv :: "jsnum \<Rightarrow> jsnum \<Rightarrow> jsnum" where
  "jdiv NaN b = NaN"
| "jdiv a NaN = NaN"
| "jdiv PInf PInf = NaN"
| "jdiv PInf NInf = NaN"
| "jdiv NInf PInf = NaN"
| "jdiv NInf NInf = NaN"
| "jdiv PInf (Fin y) = (if 0 \<le> y then PInf else NInf)"
| "jdiv NInf (Fin y) = (if 0 \<le> y then NInf else PInf)"
| "jdiv (Fin x) PInf = Fin 0"
| "jdiv (Fin x) NInf = Fin 0"
| "jdiv (Fin x) (Fin y) =
     (if y = 0 then (if x = 0 then NaN else if 0 < x then PInf else NInf)
      else Fin (x / y))"

text \<open>\<open>a >= b\<close> and \<open>a < b\<close>, \<open>a > b\<close>: every comparison with \<open>NaN\<close> is false.\<close>

fun jge :: "jsnum \<Rightarrow> jsnum \<Rightarrow> bool" where
  "jge NaN b = False"
| "jge a NaN = False"
| "jge PInf b = True"
| "jge a NInf = True"
| "jge NInf b = False"
| "jge a PInf = False"
| "jge (Fin x) (Fin y) = (y \<le> x)"

fun jlt :: "jsnum \<Rightarrow> jsnum \<Rightarrow> bool" where
  "jlt NaN b = False"
| "jlt a NaN = False"
| "jlt PInf b = False"
| "jlt a NInf = False"
| "jlt NInf b = True"
| "jlt a PInf = True"
| "jlt (Fin x) (Fin y) = (x < y)"

definition jgt :: "jsnum \<Rightarrow> jsnum \<Rightarrow> bool" where
  "jgt a b = jlt b a"

text \<open>The global functions \<open>isNaN\<close> and \<open>isFinite\<close> on a number.\<close>

fun isNaN :: "jsnum \<Rightarrow> bool" where
  "isNaN NaN = True"
| "isNaN a = False"

fun isFinite :: "jsnum \<Rightarrow> bool" where
  "isFinite (Fin x) = True"
| "isFinite a = False"

text \<open>
  \<open>parseFloat(n)\<close> on a number \<open>n\<close> parses the decimal text of \<open>n\<close>, which denotes
  \<open>n\<close> again (\<open>"NaN"\<close> parses to \<open>NaN\<close>, \<open>"Infinity"\<close> to \<open>Infinity\<close>).
\<close>

definition parseFloat :: "jsnum \<Rightarrow> jsnum" where
  "parseFloat n = n"

subsection \<open>The functions of \<open>Math\<close> that the calculator calls\<close>

fun Math_abs :: "jsnum \<Rightarrow> jsnum" where
  "Math_abs NaN = NaN"
| "Math_abs PInf = PInf"
| "Math_abs NInf = PInf"
| "Math_abs (Fin x) = Fin \<bar>x\<bar>"

fun Math_sqrt :: "jsnum \<Rightarrow> jsnum" where
  "Math_sqrt NaN = NaN"
| "Math_sqrt PInf = PInf"
| "Math_sqrt NInf = NaN"
| "Math_sqrt (Fin x) = (if x < 0 then NaN else Fin (sqrt x))"

text \<open>\<open>Math.log\<close> is the natural logarithm: \<open>-Infinity\<close> at zero, \<open>NaN\<close> below.\<close>

fun Math_log :: "jsnum \<Rightarrow> jsnum" where
  "Math_log NaN = NaN"
| "Math_log PInf = PInf"
| "Math_log NInf = NaN"
| "Math_log (Fin x) = (if x < 0 then NaN else if x = 0 then NInf else Fin (ln x))"

definition Math_LN10 :: jsnum where
  "Math_LN10 = Fin (ln 10)"

fun Math_floor :: "jsnum \<Rightarrow> jsnum" where
  "Math_floor (Fin x) = Fin (of_int \<lfloor>x\<rfloor>)"
| "Math_floor a = a"

text \<open>
  \<open>Math.round\<close> rounds to the nearest integer, a tie towards \<open>+Infinity\<close>: it is
  \<open>\<lfloor>x + 1/2\<rfloor>\<close>, which is \<^const>\<open>round\<close>.
\<close>

fun Math_round :: "jsnum \<Rightarrow> jsnum" where
  "Math_round (Fin x) = Fin (of_int (round x))"
| "Math_round a = a"

text \<open>\<open>Math.pow(10, y)\<close>, the only power the calculator takes.\<close>

fun Math_pow10 :: "jsnum \<Rightarrow> jsnum" where
  "Math_pow10 NaN = NaN"
| "Math_pow10 PInf = PInf"
| "Math_pow10 NInf = Fin 0"
| "Math_pow10 (Fin y) = Fin (10 powr y)"

section \<open>The standalone calculator, \<open>sample_size_calc.ts\<close>\<close>

definition isNumeric :: "jsnum \<Rightarrow> bool" where
  "isNumeric n = (\<not> isNaN (parseFloat n) \<and> isFinite n)"

definition roundToSigFigs :: "jsnum \<Rightarrow> jsnum" where
  "roundToSigFigs n =
     (let s = Math_round n;
          t = Math_pow10 (jsub (jsub (Fin 2) (Math_floor (jdiv (Math_log s) Math_LN10))) (Fin 1));
          a = jdiv (Math_round (jmul s t)) t
      in Math_round a)"

text \<open>The two candidate estimates share one formula, of a variance and \<open>theta\<close>.\<close>

definition variance_of :: "jsnum \<Rightarrow> jsnum \<Rightarrow> jsnum" where
  "variance_of c1 c = jadd (jmul c1 (jsub (Fin 1) c1)) (jmul c (jsub (Fin 1) c))"

definition estimate_of :: "jsnum \<Rightarrow> jsnum \<Rightarrow> jsnum \<Rightarrow> jsnum" where
  "estimate_of significance variance theta =
     jdiv (jmul (jmul (jmul (Fin 2) (jsub (Fin 1) significance)) variance)
                (Math_log (jadd (Fin 1) (jdiv (Math_sqrt variance) theta))))
          (jmul theta theta)"

text \<open>
  \<open>sampleEstimate1\<close>, \<open>sampleEstimate2\<close> and the selected \<open>sampleEstimate\<close> of
  \<open>sampleSizeEstimate\<close>, before validation and rounding.
\<close>

definition sampleEstimate1 :: "jsnum \<Rightarrow> jsnum \<Rightarrow> jsnum \<Rightarrow> jsnum" where
  "sampleEstimate1 conversionDecimal effectDecimal significanceDecimal =
     (let significance = jsub (Fin 1) significanceDecimal;
          absoluteMDE = jmul conversionDecimal effectDecimal;
          c1 = conversionDecimal;
          c2 = jsub conversionDecimal absoluteMDE;
          theta = Math_abs absoluteMDE;
          variance1 = variance_of c1 c2
      in estimate_of significance variance1 theta)"

definition sampleEstimate2 :: "jsnum \<Rightarrow> jsnum \<Rightarrow> jsnum \<Rightarrow> jsnum" where
  "sampleEstimate2 conversionDecimal effectDecimal significanceDecimal =
     (let significance = jsub (Fin 1) significanceDecimal;
          absoluteMDE = jmul conversionDecimal effectDecimal;
          c1 = conversionDecimal;
          c3 = jadd conversionDecimal absoluteMDE;
          theta = Math_abs absoluteMDE;
          variance2 = variance_of c1 c3
      in estimate_of significance variance2 theta)"

definition sampleEstimate :: "jsnum \<Rightarrow> jsnum \<Rightarrow> jsnum \<Rightarrow> jsnum" where
  "sampleEstimate conversionDecimal effectDecimal significanceDecimal =
     (let e1 = sampleEstimate1 conversionDecimal effectDecimal significanceDecimal;
          e2 = sampleEstimate2 conversionDecimal effectDecimal significanceDecimal
      in if jge (Math_abs e1) (Math_abs e2) then e1 else e2)"

text \<open>
  \<open>sampleSizeEstimate\<close>: \<open>None\<close> is the result \<open>null\<close>. The three arguments are the
  numbers the function computes on; the default values of \<open>DEFAULT_VALUES\<close> stand in
  for an argument that a caller leaves out.
\<close>

definition sampleSizeEstimate :: "jsnum \<Rightarrow> jsnum \<Rightarrow> jsnum \<Rightarrow> jsnum option" where
  "sampleSizeEstimate conversionDecimal effectDecimal significanceDecimal =
     (let est = sampleEstimate conversionDecimal effectDecimal significanceDecimal
      in if \<not> isNumeric est \<or> \<not> isFinite est \<or> jlt est (Fin 0) then None
         else Some (roundToSigFigs est))"

section \<open>The tool, \<open>OpalToolFunction.ts\<close>\<close>

text \<open>
  The request parameters. Every one is optional: \<open>None\<close> is a parameter that the
  request leaves out (\<open>undefined\<close>).
\<close>

record SampleSizeCalculatorParameters =
  baselineRate :: "jsnum option"
  mde :: "jsnum option"
  significance :: "jsnum option"
  variants :: "jsnum option"
  visitors :: "jsnum option"
  frequency :: "string option"

text \<open>
  \<open>x || d\<close> on an optional number: the default replaces the falsy values, which are
  \<open>undefined\<close>, \<open>NaN\<close> and zero; on an optional string the falsy values are
  \<open>undefined\<close> and the empty string.
\<close>

fun or_default :: "jsnum option \<Rightarrow> jsnum \<Rightarrow> jsnum" where
  "or_default None d = d"
| "or_default (Some NaN) d = d"
| "or_default (Some (Fin x)) d = (if x = 0 then d else Fin x)"
| "or_default (Some a) d = a"

fun or_default_string :: "string option \<Rightarrow> string \<Rightarrow> string" where
  "or_default_string None d = d"
| "or_default_string (Some []) d = d"
| "or_default_string (Some s) d = s"

text \<open>\<open>toLowerCase\<close> and \<open>toUpperCase\<close> on the letters of ASCII.\<close>

definition char_toLowerCase :: "char \<Rightarrow> char" where
  "char_toLowerCase c =
     (let n = (of_char c :: nat) in if 65 \<le> n \<and> n \<le> 90 then char_of (n + 32) else c)"

definition char_toUpperCase :: "char \<Rightarrow> char" where
  "char_toUpperCase c =
     (let n = (of_char c :: nat) in if 97 \<le> n \<and> n \<le> 122 then char_of (n - 32) else c)"

definition toLowerCase :: "string \<Rightarrow> string" where
  "toLowerCase s = map char_toLowerCase s"

text \<open>\<open>s.charAt(0).toUpperCase() + s.slice(1)\<close>\<close>

fun capitalise :: "string \<Rightarrow> string" where
  "capitalise [] = []"
| "capitalise (c # cs) = char_toUpperCase c # cs"

text \<open>The private \<open>isNumeric\<close> of the tool; its argument is always a number.\<close>

definition tool_isNumeric :: "jsnum \<Rightarrow> bool" where
  "tool_isNumeric v = (\<not> isNaN v \<and> isFinite v)"

text \<open>
  \<open>calculateSampleSizeInternal\<close>: the fields \<open>effect\<close>, \<open>significance\<close> and
  \<open>conversion\<close> of \<open>processedModels\<close> are its three arguments. The private
  \<open>roundToSigFigs\<close> of the tool is the function of the standalone calculator,
  character for character.
\<close>

definition calculateSampleSizeInternal :: "jsnum \<Rightarrow> jsnum \<Rightarrow> jsnum \<Rightarrow> jsnum option" where
  "calculateSampleSizeInternal effect significancePercent conversion =
     (let relativeMDE = effect;
          signif = jsub (Fin 1) (jdiv significancePercent (Fin 100));
          baselineConversionRate = conversion;
          absoluteMDE = jmul baselineConversionRate relativeMDE;
          c1 = baselineConversionRate;
          c2 = jsub baselineConversionRate absoluteMDE;
          c3 = jadd baselineConversionRate absoluteMDE;
          theta = Math_abs absoluteMDE;
          variance1 = variance_of c1 c2;
          variance2 = variance_of c1 c3;
          e1 = estimate_of signif variance1 theta;
          e2 = estimate_of signif variance2 theta;
          est = (if jge (Math_abs e1) (Math_abs e2) then e1 else e2)
      in if \<not> tool_isNumeric est \<or> \<not> isFinite est \<or> jlt est (Fin 0) then None
         else Some (roundToSigFigs est))"

text \<open>The \<open>data\<close> of a successful response.\<close>

record SampleSizeData =
  sampleSizePerVariant :: jsnum
  totalSampleSize :: jsnum
  daysToRun :: jsnum
  weeksToRun :: jsnum
  monthsToRun :: jsnum
  variantMultiplier :: jsnum
  visitorsCount :: jsnum
  visitorsFrequency :: string
  visitorsCountDays :: jsnum
  out_baselineRate :: jsnum
  expectedLift :: jsnum
  out_significance :: jsnum
  out_variants :: jsnum
  formula :: string

text \<open>
  A response: \<open>{success: false, message}\<close> or \<open>{success: true, data}\<close>.
\<close>

datatype response = Failure string | Success SampleSizeData

text \<open>
  \<open>calculateSampleSize\<close>. The version text that \<open>getAppVersion\<close> reads from the
  manifest file is the argument \<open>appVersion\<close>. No statement of the \<open>try\<close> block
  raises on parameters of the declared types, so the \<open>catch\<close> branch has no case.
\<close>

definition calculateSampleSize :: "SampleSizeCalculatorParameters \<Rightarrow> string \<Rightarrow> response" where
  "calculateSampleSize params appVersion =
     (let baselineRate' = or_default (baselineRate params) (Fin (1 / 10));
          mde' = or_default (mde params) (Fin (5 / 100));
          significance' = or_default (significance params) (Fin 95);
          variants' = or_default (variants params) (Fin 2);
          visitorsCount' = or_default (visitors params) (Fin 10000);
          visitorsFrequency' = or_default_string (frequency params) ''monthly''
      in case calculateSampleSizeInternal mde' significance' baselineRate' of
           None \<Rightarrow> Failure ''Invalid calculation parameters - unable to compute sample size''
         | Some sampleSize \<Rightarrow>
             (let variantMultiplier' = (if jgt variants' (Fin 2) then variants' else Fin 1);
                  adjustedSampleSize = jmul sampleSize variantMultiplier';
                  totalSampleSize' = jmul adjustedSampleSize variants';
                  visitorsCountDays' =
                    (if toLowerCase visitorsFrequency' = ''monthly'' then jdiv visitorsCount' (Fin 30)
                     else if toLowerCase visitorsFrequency' = ''weekly'' then jdiv visitorsCount' (Fin 7)
                     else if toLowerCase visitorsFrequency' = ''daily'' then visitorsCount'
                     else Fin 0);
                  visitorsCountDaysPerVariant = jdiv visitorsCountDays' variants';
                  daysToRun' = jdiv adjustedSampleSize visitorsCountDaysPerVariant;
                  weeksToRun' = jdiv daysToRun' (Fin 7);
                  monthsToRun' = jdiv daysToRun' (Fin 30)
              in Success \<lparr>
                   sampleSizePerVariant = adjustedSampleSize,
                   totalSampleSize = Math_round totalSampleSize',
                   daysToRun = Math_round daysToRun',
                   weeksToRun = Math_round weeksToRun',
                   monthsToRun = Math_round monthsToRun',
                   variantMultiplier = Math_round variantMultiplier',
                   visitorsCount = Math_round visitorsCount',
                   visitorsFrequency = capitalise visitorsFrequency',
                   visitorsCountDays = Math_round visitorsCountDays',
                   out_baselineRate = baselineRate',
                   expectedLift = mde',
                   out_significance = significance',
                   out_variants = variants',
                   formula = ''Sample Size Calculator Tool Formula Version '' @ appVersion \<rparr>))"

section \<open>Auxiliary definitions\<close>

text \<open>
  Auxiliary to the proofs: on an integer \<open>s\<close> of \<open>k + 1\<close> decimal digits,
  \<open>roundToSigFigs\<close> computes \<open>two_digits k s\<close>, the multiple of \<open>10 ^ (k - 1)\<close>
  nearest to \<open>s\<close> (lemma \<open>rsf_digits\<close> below).
\<close>

definition two_digits :: "nat \<Rightarrow> int \<Rightarrow> int" where
  "two_digits k s = (if k = 0 then s else round (real_of_int s / 10 ^ (k - 1)) * 10 ^ (k - 1))"

text \<open>
  Auxiliary to the proofs: on finite arguments with \<open>theta > 0\<close> a variance is
  \<open>var_at c x\<close> and a candidate estimate of nonnegative variance \<open>v\<close> is
  \<open>cand s v theta\<close> (lemmas \<open>variance_of_Fin\<close> and \<open>estimate_of_cand\<close> below).
\<close>

definition var_at :: "real \<Rightarrow> real \<Rightarrow> real" where
  "var_at c x = c * (1 - c) + x * (1 - x)"

definition cand :: "real \<Rightarrow> real \<Rightarrow> real \<Rightarrow> real" where
  "cand s v \<theta> = 2 * s * v * ln (1 + sqrt v / \<theta>) / (\<theta> * \<theta>)"

text \<open>
  The specification's reading of the selection, to compare with \<open>sampleEstimate\<close>: the
  larger of the two absolute values, \<open>max(|sampleEstimate1|, |sampleEstimate2|)\<close>, with
  the maximum of JavaScript, \<open>Math.max\<close>, which is \<open>NaN\<close> when an argument is.
\<close>

fun Math_max :: "jsnum \<Rightarrow> jsnum \<Rightarrow> jsnum" where
  "Math_max NaN b = NaN"
| "Math_max a NaN = NaN"
| "Math_max a b = (if jge a b then a else b)"

definition larger_of_two_estimates :: "jsnum \<Rightarrow> jsnum \<Rightarrow> jsnum \<Rightarrow> jsnum" where
  "larger_of_two_estimates c e s =
     Math_max (Math_abs (sampleEstimate1 c e s)) (Math_abs (sampleEstimate2 c e s))"

section \<open>Rounding to two significant figures\<close>

lemma floor_log10_eq: "0 < x \<Longrightarrow> 10 ^ k \<le> x \<Longrightarrow> x < 10 ^ (k + 1) \<Longrightarrow> \<lfloor>log 10 x\<rfloor> = int k"
  by (subst floor_log_eq_powr_iff) (auto simp: powr_realpow powr_add)

lemma rsf_small: "x < 1/2 \<Longrightarrow> roundToSigFigs (Fin x) = NaN"
proof -
  assume "x < 1/2"
  then have "round x \<le> 0" by (simp add: round_def)
  then show ?thesis
    by (auto simp add: roundToSigFigs_def Let_def Math_LN10_def jsub_def)
qed

lemma rsf_digits:
  assumes r: "round x = s" and lo: "10 ^ k \<le> s" and hi: "s < 10 ^ (k + 1)"
  shows "roundToSigFigs (Fin x) = Fin (of_int (two_digits k s))"
proof -
  have "(1::int) \<le> 10 ^ k" by simp
  then have s1: "1 \<le> s" using lo by linarith
  have "real_of_int (10 ^ k) \<le> real_of_int s" "real_of_int s < real_of_int (10 ^ (k + 1))"
    using lo hi by (simp_all only: of_int_le_iff of_int_less_iff)
  then have "(10::real) ^ k \<le> real_of_int s" "real_of_int s < 10 ^ (k + 1)"
    by simp_all
  then have fl: "\<lfloor>log 10 (real_of_int s)\<rfloor> = int k"
    using floor_log10_eq[of "real_of_int s" k] s1 by simp
  have lg: "ln (real_of_int s) / ln 10 = log 10 (real_of_int s)" by (simp add: log_def)
  have step: "roundToSigFigs (Fin x) =
      Fin (of_int (round (of_int (round (of_int s * 10 powr (1 - real k))) / 10 powr (1 - real k))))"
    using s1 by (simp add: roundToSigFigs_def Let_def Math_LN10_def jsub_def r lg fl)
  show ?thesis
  proof (cases "k = 0")
    case True
    have "real_of_int s * 10 = real_of_int (s * 10)" by simp
    then have "round (real_of_int s * 10) = s * 10"
      by (simp only: round_of_int)
    then show ?thesis using True by (simp add: step two_digits_def)
  next
    case False
    then have e: "1 - real k = - real (k - 1)" by simp
    have p: "(10::real) powr real (k - 1) = 10 ^ (k - 1)" by (rule powr_realpow) simp
    have t: "10 powr (1 - real k) = 1 / 10 ^ (k - 1)"
      unfolding e powr_minus_divide p ..
    have "real_of_int (round (real_of_int s / 10 ^ (k - 1))) * 10 ^ (k - 1)
        = real_of_int (round (real_of_int s / 10 ^ (k - 1)) * 10 ^ (k - 1))" by simp
    then have "round (real_of_int (round (real_of_int s / 10 ^ (k - 1))) * 10 ^ (k - 1))
        = round (real_of_int s / 10 ^ (k - 1)) * 10 ^ (k - 1)"
      by (simp only: round_of_int)
    then show ?thesis using False by (simp add: step t two_digits_def)
  qed
qed

text \<open>
  C1. \<open>roundToSigFigs\<close> keeps two significant figures, not three: the exponent of its
  scale factor is \<open>2 - \<lfloor>log10 s\<rfloor> - 1\<close>. It maps 12345 to 12000 (not to 12300), 87
  to 87 and 4 to 4.
\<close>

theorem roundToSigFigs_two_figures:
  "roundToSigFigs (Fin 12345) = Fin 12000 \<and> roundToSigFigs (Fin 87) = Fin 87 \<and>
   roundToSigFigs (Fin 4) = Fin 4"
proof -
  have "roundToSigFigs (Fin 12345) = Fin 12000"
    using rsf_digits[of 12345 12345 4] by (simp add: two_digits_def round_def)
  moreover have "roundToSigFigs (Fin 87) = Fin 87"
    using rsf_digits[of 87 87 1] by (simp add: two_digits_def)
  moreover have "roundToSigFigs (Fin 4) = Fin 4"
    using rsf_digits[of 4 4 0] by (simp add: two_digits_def)
  ultimately show ?thesis by simp
qed

section \<open>The candidate estimates and the selection\<close>

lemma estimate_of_Fin:
  assumes "0 < \<theta>"
  shows "estimate_of (Fin sg) (Fin v) (Fin \<theta>) =
    (if v < 0 then NaN else Fin (2 * (1 - sg) * v * ln (1 + sqrt v / \<theta>) / (\<theta> * \<theta>)))"
proof (cases "v < 0")
  case True
  then show ?thesis by (simp add: estimate_of_def jsub_def)
next
  case False
  then have "0 \<le> sqrt v / \<theta>" using assms by simp
  then have "\<not> 1 + sqrt v / \<theta> < 0" "1 + sqrt v / \<theta> \<noteq> 0" by linarith+
  then show ?thesis using False assms by (simp add: estimate_of_def jsub_def)
qed

lemma estimate_of_NaN_theta: "estimate_of sg v NaN = NaN"
  by (cases "jmul (jmul (jmul (Fin 2) (jsub (Fin 1) sg)) v)
                (Math_log (jadd (Fin 1) (jdiv (Math_sqrt v) NaN)))")
     (simp_all add: estimate_of_def)

lemma mul_PInf_not_finite: "\<not> isFinite (jmul a PInf)"
  by (cases a) simp_all

lemma div_zero_not_finite: "\<not> isFinite a \<Longrightarrow> \<not> isFinite (jdiv a (Fin 0))"
  by (cases a) simp_all

lemma mul_NaN_right: "jmul a NaN = NaN"
  by (cases a) simp_all

lemma estimate_of_zero_theta: "\<not> isFinite (estimate_of sg v (Fin 0))"
proof -
  have "Math_log (jadd (Fin 1) (jdiv (Math_sqrt v) (Fin 0))) = NaN \<or>
        Math_log (jadd (Fin 1) (jdiv (Math_sqrt v) (Fin 0))) = PInf"
    by (cases v) auto
  then have "\<not> isFinite (jmul (jmul (jmul (Fin 2) (jsub (Fin 1) sg)) v)
                (Math_log (jadd (Fin 1) (jdiv (Math_sqrt v) (Fin 0)))))"
    using mul_PInf_not_finite by (auto simp: mul_NaN_right)
  then show ?thesis
    unfolding estimate_of_def using div_zero_not_finite by simp
qed

lemma sampleEstimate_zero_effect: "\<not> isFinite (sampleEstimate c (Fin 0) s)"
proof (cases c)
  case (Fin x)
  then show ?thesis
    by (simp add: sampleEstimate_def sampleEstimate1_def sampleEstimate2_def Let_def
        estimate_of_zero_theta)
qed (simp_all add: sampleEstimate_def sampleEstimate1_def sampleEstimate2_def Let_def
        estimate_of_NaN_theta)

text \<open>
  C4. With \<open>relativeEffect = 0\<close> the result is \<open>null\<close>, for every baseline (one in
  \<open>(0,1)\<close> in particular) and every significance level, \<open>NaN\<close> and the infinities
  included: \<open>theta\<close> is zero, both candidates are infinite or \<open>NaN\<close>, and the
  finiteness check rejects the selected one.
\<close>

theorem zero_effect_no_result: "sampleSizeEstimate c (Fin 0) s = None"
  using sampleEstimate_zero_effect[of c s] by (simp add: sampleSizeEstimate_def Let_def)

theorem zero_effect_no_result_witness:
  "sampleSizeEstimate (Fin (3/100)) (Fin 0) (Fin (95/100)) = None"
  by (rule zero_effect_no_result)

lemma ln2_lower: "(68/100::real) < ln 2"
proof -
  have "(1 - (68/100) / real 32) ^ 32 \<le> exp (- (68/100::real))"
    by (rule exp_ge_one_minus_x_over_n_power_n) simp_all
  moreover have "(1/2::real) < (1 - (68/100) / real 32) ^ 32" by (simp add: power_divide)
  ultimately have "1/2 < exp (- (68/100::real))" by linarith
  then have "exp (68/100::real) < 2" by (simp add: exp_minus field_simps)
  then have "exp (68/100::real) < exp (ln 2)" by simp
  then show ?thesis by (simp only: exp_less_cancel_iff)
qed

lemma ln2_upper: "ln 2 < (6963/10000::real)"
proof -
  define y :: real where "y = 6963/80000"
  have "1 + y + y\<^sup>2 / 2 \<le> exp y"
    by (rule exp_lower_Taylor_quadratic) (simp add: y_def)
  moreover have "0 \<le> 1 + y + y\<^sup>2 / 2" by (simp add: y_def)
  ultimately have le: "(1 + y + y\<^sup>2 / 2) ^ 8 \<le> exp y ^ 8" by (rule power_mono)
  have "exp y ^ 8 = exp (8 * y)" by (simp add: exp_of_nat_mult[symmetric])
  also have "8 * y = 6963/10000" by (simp add: y_def)
  finally have e: "exp y ^ 8 = exp (6963/10000)" .
  have "(2::real) < (1 + y + y\<^sup>2 / 2) ^ 8" by (simp add: y_def power_divide)
  then have "2 < exp (6963/10000::real)" using le unfolding e by (rule less_le_trans)
  then have "exp (ln 2) < exp (6963/10000::real)" by simp
  then show ?thesis by (simp only: exp_less_cancel_iff)
qed

lemma variance_of_Fin: "variance_of (Fin c) (Fin x) = Fin (var_at c x)"
  by (simp add: variance_of_def var_at_def jsub_def)

lemma estimate_of_cand:
  "0 < \<theta> \<Longrightarrow> estimate_of (jsub (Fin 1) (Fin s)) (Fin v) (Fin \<theta>) =
     (if v < 0 then NaN else Fin (cand s v \<theta>))"
  by (simp add: jsub_def estimate_of_Fin cand_def)

lemma sampleEstimate1_Fin:
  "c * e \<noteq> 0 \<Longrightarrow> sampleEstimate1 (Fin c) (Fin e) (Fin s) =
     (if var_at c (c - c * e) < 0 then NaN else Fin (cand s (var_at c (c - c * e)) \<bar>c * e\<bar>))"
  using estimate_of_cand[of "\<bar>c * e\<bar>" s "var_at c (c - c * e)"]
  by (simp add: sampleEstimate1_def Let_def variance_of_Fin) (simp add: jsub_def variance_of_Fin)

lemma sampleEstimate2_Fin:
  "c * e \<noteq> 0 \<Longrightarrow> sampleEstimate2 (Fin c) (Fin e) (Fin s) =
     (if var_at c (c + c * e) < 0 then NaN else Fin (cand s (var_at c (c + c * e)) \<bar>c * e\<bar>))"
  using estimate_of_cand[of "\<bar>c * e\<bar>" s "var_at c (c + c * e)"]
  by (simp add: sampleEstimate2_def Let_def variance_of_Fin)

lemma sampleSizeEstimate_Fin:
  "sampleEstimate c e s = Fin x \<Longrightarrow> 0 \<le> x \<Longrightarrow> sampleSizeEstimate c e s = Some (roundToSigFigs (Fin x))"
  by (simp add: sampleSizeEstimate_def isNumeric_def parseFloat_def)

lemma cand_nonneg: "0 \<le> s \<Longrightarrow> 0 \<le> v \<Longrightarrow> 0 < \<theta> \<Longrightarrow> 0 \<le> cand s v \<theta>"
  unfolding cand_def by (intro divide_nonneg_nonneg mult_nonneg_nonneg ln_ge_zero) simp_all

lemma sqrt_quarter: "sqrt (1/4) = 1/2"
  by (rule real_sqrt_unique) (simp_all add: power2_eq_square)

text \<open>
  C2. The validation lets a selected estimate of zero through to the rounding step
  (it rejects \<open>sampleEstimate < 0\<close> only), and \<open>roundToSigFigs\<close> of a value below one
  half is \<open>NaN\<close>: with significance 0 the call \<open>sampleSizeEstimate(0.03, 0.2, 0)\<close>
  returns \<open>NaN\<close>, neither a finite number nor \<open>null\<close>.
\<close>

theorem zero_significance_returns_NaN:
  "sampleSizeEstimate (Fin (3/100)) (Fin (2/10)) (Fin 0) = Some NaN"
proof -
  have "sampleEstimate1 (Fin (3/100)) (Fin (2/10)) (Fin 0) = Fin 0"
    by (simp add: sampleEstimate1_Fin var_at_def cand_def)
  moreover have "sampleEstimate2 (Fin (3/100)) (Fin (2/10)) (Fin 0) = Fin 0"
    by (simp add: sampleEstimate2_Fin var_at_def cand_def)
  ultimately have "sampleEstimate (Fin (3/100)) (Fin (2/10)) (Fin 0) = Fin 0"
    by (simp add: sampleEstimate_def)
  then have "sampleSizeEstimate (Fin (3/100)) (Fin (2/10)) (Fin 0) = Some (roundToSigFigs (Fin 0))"
    by (rule sampleSizeEstimate_Fin) simp
  then show ?thesis by (simp add: rsf_small)
qed

theorem zero_significance_returns_NaN_witness:
  "\<exists>r. sampleSizeEstimate (Fin (3/100)) (Fin (2/10)) (Fin 0) = Some r \<and> \<not> isFinite r"
  using zero_significance_returns_NaN by simp

lemma sampleEstimate_sel:
  "sampleEstimate1 c e s = a \<Longrightarrow> sampleEstimate2 c e s = b \<Longrightarrow>
   sampleEstimate c e s = (if jge (Math_abs a) (Math_abs b) then a else b)"
  by (simp add: sampleEstimate_def Let_def)

lemma round_one: "1/2 \<le> x \<Longrightarrow> x < 3/2 \<Longrightarrow> round x = 1"
  by (simp add: round_def floor_eq_iff)

text \<open>
  C3. A baseline outside \<open>(0,1)\<close> can return a positive number: for baseline 1 and
  relative effect \<open>-0.5\<close> the first candidate is \<open>NaN\<close> (negative variance), the
  comparison with it is false, the second candidate \<open>1.9 ln 2\<close> is selected, and
  \<open>sampleSizeEstimate(1, -0.5, 0.95)\<close> returns 1.
\<close>

theorem baseline_one_returns_number:
  "sampleSizeEstimate (Fin 1) (Fin (- 1/2)) (Fin (95/100)) = Some (Fin 1)"
proof -
  have e1: "sampleEstimate1 (Fin 1) (Fin (- 1/2)) (Fin (95/100)) = NaN"
    by (simp add: sampleEstimate1_Fin var_at_def)
  have e2: "sampleEstimate2 (Fin 1) (Fin (- 1/2)) (Fin (95/100)) = Fin (19/10 * ln 2)"
    by (simp add: sampleEstimate2_Fin var_at_def cand_def sqrt_quarter)
  have sel: "sampleEstimate (Fin 1) (Fin (- 1/2)) (Fin (95/100)) = Fin (19/10 * ln 2)"
    using sampleEstimate_sel[OF e1 e2] by simp
  have b: "1/2 \<le> 19/10 * ln (2::real)" "19/10 * ln (2::real) < 3/2"
    using ln2_lower ln2_upper by simp_all
  then have r: "round (19/10 * ln (2::real)) = 1" by (rule round_one)
  have "sampleSizeEstimate (Fin 1) (Fin (- 1/2)) (Fin (95/100)) = Some (roundToSigFigs (Fin (19/10 * ln 2)))"
    using sel by (rule sampleSizeEstimate_Fin) (use b in simp)
  then show ?thesis using rsf_digits[OF r, of 0] by (simp add: two_digits_def)
qed

theorem baseline_one_returns_number_witness:
  "\<exists>n. 0 < n \<and> sampleSizeEstimate (Fin 1) (Fin (- 1/2)) (Fin (95/100)) = Some (Fin n)"
  using baseline_one_returns_number by simp

text \<open>
  C5. On the valid input \<open>(0.9, -0.5, 0.95)\<close> the result is not \<open>null\<close>, but the
  selected estimate is not the larger of the two absolute values: the first candidate
  is \<open>NaN\<close>, and the selection returns the second one.
\<close>

theorem first_estimate_NaN_is_dropped:
  "sampleEstimate1 (Fin (9/10)) (Fin (- 1/2)) (Fin (95/100)) = NaN \<and>
   sampleSizeEstimate (Fin (9/10)) (Fin (- 1/2)) (Fin (95/100)) \<noteq> None \<and>
   sampleEstimate (Fin (9/10)) (Fin (- 1/2)) (Fin (95/100)) \<noteq>
     larger_of_two_estimates (Fin (9/10)) (Fin (- 1/2)) (Fin (95/100))"
proof -
  define x where "x = cand (95/100) (var_at (9/10) (9/10 + 9/10 * (- 1/2))) \<bar>9/10 * (- 1/2)\<bar>"
  have x0: "0 \<le> x" unfolding x_def by (rule cand_nonneg) (simp_all add: var_at_def)
  have e1: "sampleEstimate1 (Fin (9/10)) (Fin (- 1/2)) (Fin (95/100)) = NaN"
    by (simp add: sampleEstimate1_Fin var_at_def)
  have e2: "sampleEstimate2 (Fin (9/10)) (Fin (- 1/2)) (Fin (95/100)) = Fin x"
    unfolding x_def by (subst sampleEstimate2_Fin) (simp_all add: var_at_def)
  have sel: "sampleEstimate (Fin (9/10)) (Fin (- 1/2)) (Fin (95/100)) = Fin x"
    using sampleEstimate_sel[OF e1 e2] by simp
  have "sampleSizeEstimate (Fin (9/10)) (Fin (- 1/2)) (Fin (95/100)) = Some (roundToSigFigs (Fin x))"
    using sel x0 by (rule sampleSizeEstimate_Fin)
  moreover have "larger_of_two_estimates (Fin (9/10)) (Fin (- 1/2)) (Fin (95/100)) = NaN"
    unfolding larger_of_two_estimates_def e1 by simp
  ultimately show ?thesis using e1 sel by simp
qed

theorem first_estimate_NaN_is_dropped_witness:
  "sampleSizeEstimate (Fin (9/10)) (Fin (- 1/2)) (Fin (95/100)) \<noteq> None"
  using first_estimate_NaN_is_dropped by simp

lemma sqrt_hundredth: "sqrt (1/100) = 1/10"
  by (rule real_sqrt_unique) (simp_all add: power2_eq_square)

text \<open>
  C7. The function returns a value on every triple of numbers and raises nothing, but
  an invalid input is not always answered by \<open>null\<close>: the relative effect 1.4 on the
  baseline 0.5 puts both comparison rates, \<open>-0.2\<close> and \<open>1.2\<close>, outside \<open>[0,1]\<close>; the
  selected estimate \<open>19/490 * ln (8/7)\<close> is below one half, passes the validation,
  and \<open>sampleSizeEstimate(0.5, 1.4, 0.95)\<close> returns \<open>NaN\<close>.
\<close>

theorem out_of_range_effect_returns_NaN:
  "sampleSizeEstimate (Fin (1/2)) (Fin (14/10)) (Fin (95/100)) = Some NaN"
proof -
  define x :: real where "x = 19/490 * ln (8/7)"
  have e1: "sampleEstimate1 (Fin (1/2)) (Fin (14/10)) (Fin (95/100)) = Fin x"
    by (simp add: sampleEstimate1_Fin var_at_def cand_def sqrt_hundredth x_def)
  have e2: "sampleEstimate2 (Fin (1/2)) (Fin (14/10)) (Fin (95/100)) = Fin x"
    by (simp add: sampleEstimate2_Fin var_at_def cand_def sqrt_hundredth x_def)
  have sel: "sampleEstimate (Fin (1/2)) (Fin (14/10)) (Fin (95/100)) = Fin x"
    using sampleEstimate_sel[OF e1 e2] by simp
  have "ln (1 + 1/7) \<le> (1/7::real)" by (rule ln_add_one_self_le_self) simp
  then have u: "ln (8/7) \<le> (1/7::real)" by simp
  have l: "0 \<le> ln (8/7::real)" by simp
  have x0: "0 \<le> x" using l by (simp add: x_def)
  have x1: "x < 1/2" using u by (simp add: x_def)
  have "sampleSizeEstimate (Fin (1/2)) (Fin (14/10)) (Fin (95/100)) = Some (roundToSigFigs (Fin x))"
    using sel x0 by (rule sampleSizeEstimate_Fin)
  then show ?thesis using rsf_small[OF x1] by simp
qed

theorem out_of_range_effect_returns_NaN_witness:
  "\<exists>r. sampleSizeEstimate (Fin (1/2)) (Fin (14/10)) (Fin (95/100)) = Some r \<and> isNaN r"
  using out_of_range_effect_returns_NaN by simp

section \<open>The tool with an unknown frequency\<close>

lemma div_not_finite_left: "\<not> isFinite a \<Longrightarrow> \<not> isFinite (jdiv a b)"
  by (cases a; cases b) simp_all

lemma estimate_half_one:
  "sampleSizeEstimate (Fin (1/2)) (Fin 1) (Fin (95/100)) = Some (Fin 1)"
proof -
  have e1: "sampleEstimate1 (Fin (1/2)) (Fin 1) (Fin (95/100)) = Fin (19/10 * ln 2)"
    by (simp add: sampleEstimate1_Fin var_at_def cand_def sqrt_quarter)
  have e2: "sampleEstimate2 (Fin (1/2)) (Fin 1) (Fin (95/100)) = Fin (19/10 * ln 2)"
    by (simp add: sampleEstimate2_Fin var_at_def cand_def sqrt_quarter)
  have sel: "sampleEstimate (Fin (1/2)) (Fin 1) (Fin (95/100)) = Fin (19/10 * ln 2)"
    using sampleEstimate_sel[OF e1 e2] by simp
  have b: "1/2 \<le> 19/10 * ln (2::real)" "19/10 * ln (2::real) < 3/2"
    using ln2_lower ln2_upper by simp_all
  then have r: "round (19/10 * ln (2::real)) = 1" by (rule round_one)
  have "sampleSizeEstimate (Fin (1/2)) (Fin 1) (Fin (95/100)) = Some (roundToSigFigs (Fin (19/10 * ln 2)))"
    using sel by (rule sampleSizeEstimate_Fin) (use b in simp)
  then show ?thesis using rsf_digits[OF r, of 0] by (simp add: two_digits_def)
qed

lemma internal_eq:
  "calculateSampleSizeInternal e sp c = sampleSizeEstimate c e (jdiv sp (Fin 100))"
  by (simp add: calculateSampleSizeInternal_def sampleSizeEstimate_def sampleEstimate_def
      sampleEstimate1_def sampleEstimate2_def Let_def tool_isNumeric_def isNumeric_def
      parseFloat_def)

lemma div_by_zero_not_finite: "\<not> isFinite (jdiv a (Fin 0))"
  by (cases a) simp_all

lemma round_not_finite: "\<not> isFinite a \<Longrightarrow> \<not> isFinite (Math_round a)"
  by (cases a) simp_all

lemma or_default_variants: "\<exists>v. v \<noteq> 0 \<and> or_default x (Fin 2) = Fin v \<or> or_default x (Fin 2) = PInf \<or> or_default x (Fin 2) = NInf"
proof (cases x)
  case None
  then show ?thesis by simp
next
  case (Some a)
  then show ?thesis by (cases a) auto
qed

lemma zero_div_variants: "jdiv (Fin 0) (or_default x (Fin 2)) = Fin 0"
  using or_default_variants[of x] by auto

text \<open>
  C10, as amended. When the \<open>frequency\<close> parameter is a nonempty string that is none
  of \<open>monthly\<close>, \<open>weekly\<close>, \<open>daily\<close> (in any case of letters) and the sample size is
  not \<open>null\<close>, the tool answers \<open>success: true\<close> with \<open>visitorsCountDays = 0\<close> and
  with \<open>daysToRun\<close>, \<open>weeksToRun\<close> and \<open>monthsToRun\<close> not finite: the division by the
  visitors per day and variant, which is zero, is unguarded.
\<close>

theorem unknown_frequency_not_finite:
  assumes f: "frequency p = Some f" "f \<noteq> []"
    "toLowerCase f \<noteq> ''monthly''" "toLowerCase f \<noteq> ''weekly''" "toLowerCase f \<noteq> ''daily''"
    and n: "calculateSampleSizeInternal (or_default (mde p) (Fin (5/100)))
              (or_default (significance p) (Fin 95)) (or_default (baselineRate p) (Fin (1/10))) = Some n"
  shows "\<exists>d. calculateSampleSize p v = Success d \<and> visitorsCountDays d = Fin 0 \<and>
           \<not> isFinite (daysToRun d) \<and> \<not> isFinite (weeksToRun d) \<and> \<not> isFinite (monthsToRun d)"
proof -
  have fr: "or_default_string (frequency p) ''monthly'' = f"
    using f(1,2) by (cases f) simp_all
  show ?thesis
    unfolding calculateSampleSize_def Let_def n fr
    using f(3,4,5)
    by (simp add: zero_div_variants round_not_finite div_not_finite_left div_by_zero_not_finite)
qed

lemma internal_half_one:
  "calculateSampleSizeInternal (Fin 1) (Fin 95) (Fin (1/2)) = Some (Fin 1)"
  using estimate_half_one by (simp add: internal_eq)

lemma lower_yearly_other:
  "toLowerCase ''Yearly'' \<noteq> ''monthly''" "toLowerCase ''Yearly'' \<noteq> ''weekly''"
  "toLowerCase ''Yearly'' \<noteq> ''daily''"
  by code_simp+

lemma lower_monthly: "toLowerCase ''monthly'' = ''monthly''"
  by code_simp

theorem unknown_frequency_not_finite_witness:
  "frequency \<lparr>baselineRate = Some (Fin (1/2)), mde = Some (Fin 1), significance = Some (Fin 95),
      variants = None, visitors = None, frequency = Some ''Yearly''\<rparr> = Some ''Yearly'' \<and>
   ''Yearly'' \<noteq> [] \<and> toLowerCase ''Yearly'' \<noteq> ''monthly'' \<and>
   toLowerCase ''Yearly'' \<noteq> ''weekly'' \<and> toLowerCase ''Yearly'' \<noteq> ''daily'' \<and>
   calculateSampleSizeInternal (Fin 1) (Fin 95) (Fin (1/2)) = Some (Fin 1) \<and>
   (\<exists>d. calculateSampleSize \<lparr>baselineRate = Some (Fin (1/2)), mde = Some (Fin 1),
          significance = Some (Fin 95), variants = None, visitors = None,
          frequency = Some ''Yearly''\<rparr> ''1.0.0'' = Success d \<and>
        visitorsCountDays d = Fin 0 \<and> \<not> isFinite (daysToRun d) \<and>
        \<not> isFinite (weeksToRun d) \<and> \<not> isFinite (monthsToRun d))"
  using unknown_frequency_not_finite[where p = "\<lparr>baselineRate = Some (Fin (1/2)),
      mde = Some (Fin 1), significance = Some (Fin 95), variants = None, visitors = None,
      frequency = Some ''Yearly''\<rparr>" and f = "''Yearly''" and n = "Fin 1" and v = "''1.0.0''"]
    lower_yearly_other internal_half_one
  by simp

text \<open>
  C10 as stated fails for the empty string, which is none of the three names but is
  falsy, so \<open>params.frequency || 'monthly'\<close> replaces it: \<open>visitorsCountDays\<close> is
  \<open>10000 / 30\<close>, rounded to 333, and \<open>daysToRun\<close> is finite.
\<close>

theorem empty_frequency_is_monthly:
  "frequency \<lparr>baselineRate = Some (Fin (1/2)), mde = Some (Fin 1), significance = Some (Fin 95),
      variants = None, visitors = None, frequency = Some ''''\<rparr> = Some '''' \<and>
   toLowerCase '''' \<noteq> ''monthly'' \<and> toLowerCase '''' \<noteq> ''weekly'' \<and>
   toLowerCase '''' \<noteq> ''daily'' \<and>
   calculateSampleSizeInternal (Fin 1) (Fin 95) (Fin (1/2)) = Some (Fin 1) \<and>
   (\<exists>d. calculateSampleSize \<lparr>baselineRate = Some (Fin (1/2)), mde = Some (Fin 1),
          significance = Some (Fin 95), variants = None, visitors = None,
          frequency = Some ''''\<rparr> ''1.0.0'' = Success d \<and>
        visitorsCountDays d = Fin 333 \<and> daysToRun d = Fin 0)"
proof -
  have r: "round (1000 / 3 :: real) = 333" "round (3 / 500 :: real) = 0"
    by (simp_all add: round_def)
  have l: "toLowerCase [] = []" by (simp add: toLowerCase_def)
  show ?thesis
    by (simp add: calculateSampleSize_def Let_def internal_half_one lower_monthly l jgt_def r)
qed

end
